theory Spec2Isabelle
  imports Main "HOL-Library.Word" "HOL-Library.AList"
begin

section \<open>The game coordinator (package chunkymonkey)\<close>

subsection \<open>Data\<close>

text \<open>
  The Go file declares only \<^verbatim>\<open>Game\<close>; the types it uses
  (\<^verbatim>\<open>EntityID\<close>, \<^verbatim>\<open>Entity\<close>, \<^verbatim>\<open>Player\<close>,
  \<^verbatim>\<open>PickupItem\<close>, \<^verbatim>\<open>ChunkXZ\<close>, \<^verbatim>\<open>XYZ\<close>) are declared elsewhere.
  They are modelled by the fields the file reads and writes.  Entity identifiers and chunk
  coordinates are integers whose width is declared elsewhere; the file only compares them and
  adds the radius, and they are unbounded integers here.  Positions, orientations and held
  items are never inspected by the file (they are handed to collaborators), so their types are
  parameters.
\<close>

type_synonym EntityID = int
type_synonym bytes = "8 word list"

record ChunkXZ =
  chunkX :: int
  chunkZ :: int

record Entity =
  EntityID :: EntityID

text \<open>
  A \<^verbatim>\<open>*Player\<close> is a pointer, and the file compares players by pointer
  (\<^verbatim>\<open>existing == player\<close>).  The field \<open>ptr\<close> is the address of the object: two
  players are the same object iff their \<open>ptr\<close> agree.
\<close>

record ('pos, 'ori, 'itm) Player =
  ptr :: nat
  Entity :: Entity
  name :: string
  position :: 'pos
  orientation :: 'ori
  currentItem :: 'itm

record 'pos PickupItem =
  itemEntity :: Entity
  itemPosition :: 'pos

text \<open>
  The struct \<^verbatim>\<open>Game\<close>.  A Go map is an association list (keys are kept distinct by
  \<open>AList.update\<close> and \<open>AList.delete\<close>); a \<^verbatim>\<open>range\<close> loop visits it in list order, which is
  one of the orders Go allows.  The fields \<^verbatim>\<open>chunkManager\<close>, \<^verbatim>\<open>mainQueue\<close> and
  \<^verbatim>\<open>blockTypes\<close> are not touched by the operations below and are left out.  The last two
  fields are not fields of the Go struct; they record the effects of the operations on the
  outside: \<open>sent\<close> lists the calls \<^verbatim>\<open>receiver.TransmitPacket(packet)\<close> in the order they
  are made, as (receiver's address, packet), and \<open>logged\<close> the lines given to
  \<^verbatim>\<open>log.Print\<close>.
\<close>

record ('pos, 'ori, 'itm, 'em) Game =
  entityManager :: 'em
  players :: "(EntityID \<times> ('pos, 'ori, 'itm) Player) list"
  pickupItems :: "(EntityID \<times> 'pos PickupItem) list"
  time :: "64 word"
  sent :: "(nat \<times> bytes) list"
  logged :: "string list"

text \<open>
  What the file calls and does not define: the constant \<^verbatim>\<open>ChunkRadius\<close>, the
  conversion \<^verbatim>\<open>ToChunkXZ\<close> of a position, the entity manager's \<^verbatim>\<open>AddEntity\<close>
  and \<^verbatim>\<open>RemoveEntity\<close> (which receive a pointer to the entity, so \<open>AddEntity\<close> returns the
  entity as it leaves it), and the packet writers.  A writer appends to the buffer it is given;
  it is modelled by the bytes it appends.  Only \<^verbatim>\<open>WritePickupSpawn\<close> has its error
  read by the file (\<open>Inl\<close> carries the error's text).
\<close>

record ('pos, 'ori, 'itm, 'em) Env =
  ChunkRadius :: int
  ToChunkXZ :: "'pos \<Rightarrow> ChunkXZ"
  AddEntity :: "'em \<Rightarrow> Entity \<Rightarrow> 'em \<times> Entity"
  RemoveEntity :: "'em \<Rightarrow> Entity \<Rightarrow> 'em"
  WriteNamedEntitySpawn :: "EntityID \<Rightarrow> string \<Rightarrow> 'pos \<Rightarrow> 'ori \<Rightarrow> 'itm \<Rightarrow> bytes"
  WriteDestroyEntity :: "EntityID \<Rightarrow> bytes"
  WritePickupSpawn :: "'pos PickupItem \<Rightarrow> string + bytes"
  WriteChatMessage :: "string \<Rightarrow> bytes"
  WriteTimeUpdate :: "64 word \<Rightarrow> bytes"

subsection \<open>Players in a radius\<close>

text \<open>
  \<^verbatim>\<open>PlayersInRadius\<close> returns a channel that a goroutine fills while ranging over
  \<^verbatim>\<open>game.players\<close> and then closes; every caller in the file drains it.  The model is the
  list of the players sent, in the order they are sent.  Both upper bounds are computed from
  \<^verbatim>\<open>loc.x\<close>, as in the source.
\<close>

definition PlayersInRadius ::
  "('pos, 'ori, 'itm, 'em) Env \<Rightarrow> ('pos, 'ori, 'itm, 'em) Game \<Rightarrow> ChunkXZ
    \<Rightarrow> ('pos, 'ori, 'itm) Player list" where
  "PlayersInRadius env game loc =
     (let minX = chunkX loc - ChunkRadius env;
          minZ = chunkZ loc - ChunkRadius env;
          maxX = chunkX loc + ChunkRadius env + 1;
          maxZ = chunkX loc + ChunkRadius env + 1
      in filter
           (\<lambda>player.
              let p = ToChunkXZ env (position player)
              in chunkX p \<ge> minX \<and> chunkX p \<le> maxX \<and> chunkZ p \<ge> minZ \<and> chunkZ p \<le> maxZ)
           (map snd (players game)))"

definition PlayersInPlayerRadius ::
  "('pos, 'ori, 'itm, 'em) Env \<Rightarrow> ('pos, 'ori, 'itm, 'em) Game \<Rightarrow> ('pos, 'ori, 'itm) Player
    \<Rightarrow> ('pos, 'ori, 'itm) Player list" where
  "PlayersInPlayerRadius env game player =
     (let pos = ToChunkXZ env (position player) in PlayersInRadius env game pos)"

subsection \<open>Transmitting packets\<close>

definition TransmitPacket ::
  "('pos, 'ori, 'itm, 'em) Game \<Rightarrow> ('pos, 'ori, 'itm) Player \<Rightarrow> bytes
    \<Rightarrow> ('pos, 'ori, 'itm, 'em) Game" where
  "TransmitPacket game player packet = game\<lparr>sent := sent game @ [(ptr player, packet)]\<rparr>"

text \<open>
  The loop of \<^verbatim>\<open>MulticastPacket\<close> over the players still to visit.  \<open>except\<close> is a
  pointer that may be \<^verbatim>\<open>nil\<close> (\<open>None\<close>); no player of the directory is \<^verbatim>\<open>nil\<close>.
\<close>

fun MulticastPacket_loop ::
  "bytes \<Rightarrow> nat option \<Rightarrow> ('pos, 'ori, 'itm) Player list \<Rightarrow> ('pos, 'ori, 'itm, 'em) Game
    \<Rightarrow> ('pos, 'ori, 'itm, 'em) Game" where
  "MulticastPacket_loop packet except [] game = game"
| "MulticastPacket_loop packet except (player # rest) game =
     (if Some (ptr player) = except then MulticastPacket_loop packet except rest game
      else MulticastPacket_loop packet except rest (TransmitPacket game player packet))"

definition MulticastPacket ::
  "('pos, 'ori, 'itm, 'em) Game \<Rightarrow> bytes \<Rightarrow> nat option \<Rightarrow> ('pos, 'ori, 'itm, 'em) Game" where
  "MulticastPacket game packet except =
     MulticastPacket_loop packet except (map snd (players game)) game"

definition SendChatMessage ::
  "('pos, 'ori, 'itm, 'em) Env \<Rightarrow> ('pos, 'ori, 'itm, 'em) Game \<Rightarrow> string
    \<Rightarrow> ('pos, 'ori, 'itm, 'em) Game" where
  "SendChatMessage env game message =
     (let buf = [] @ WriteChatMessage env message in MulticastPacket game buf None)"

fun MulticastChunkPacket_loop ::
  "bytes \<Rightarrow> ('pos, 'ori, 'itm) Player list \<Rightarrow> ('pos, 'ori, 'itm, 'em) Game
    \<Rightarrow> ('pos, 'ori, 'itm, 'em) Game" where
  "MulticastChunkPacket_loop packet [] game = game"
| "MulticastChunkPacket_loop packet (receiver # rest) game =
     MulticastChunkPacket_loop packet rest (TransmitPacket game receiver packet)"

definition MulticastChunkPacket ::
  "('pos, 'ori, 'itm, 'em) Env \<Rightarrow> ('pos, 'ori, 'itm, 'em) Game \<Rightarrow> bytes \<Rightarrow> ChunkXZ
    \<Rightarrow> ('pos, 'ori, 'itm, 'em) Game" where
  "MulticastChunkPacket env game packet loc =
     MulticastChunkPacket_loop packet (PlayersInRadius env game loc) game"

fun MulticastRadiusPacket_loop ::
  "bytes \<Rightarrow> ('pos, 'ori, 'itm) Player \<Rightarrow> ('pos, 'ori, 'itm) Player list
    \<Rightarrow> ('pos, 'ori, 'itm, 'em) Game \<Rightarrow> ('pos, 'ori, 'itm, 'em) Game" where
  "MulticastRadiusPacket_loop packet sender [] game = game"
| "MulticastRadiusPacket_loop packet sender (receiver # rest) game =
     (if ptr receiver = ptr sender then MulticastRadiusPacket_loop packet sender rest game
      else MulticastRadiusPacket_loop packet sender rest (TransmitPacket game receiver packet))"

definition MulticastRadiusPacket ::
  "('pos, 'ori, 'itm, 'em) Env \<Rightarrow> ('pos, 'ori, 'itm, 'em) Game \<Rightarrow> bytes
    \<Rightarrow> ('pos, 'ori, 'itm) Player \<Rightarrow> ('pos, 'ori, 'itm, 'em) Game" where
  "MulticastRadiusPacket env game packet sender =
     MulticastRadiusPacket_loop packet sender (PlayersInPlayerRadius env game sender) game"

subsection \<open>Players and items joining and leaving\<close>

text \<open>
  The second loop of \<^verbatim>\<open>AddPlayer\<close>: one spawn notification per existing player is
  appended to the buffer, the new player skipped.
\<close>

fun AddPlayer_loop ::
  "('pos, 'ori, 'itm, 'em) Env \<Rightarrow> ('pos, 'ori, 'itm) Player \<Rightarrow> ('pos, 'ori, 'itm) Player list
    \<Rightarrow> bytes \<Rightarrow> bytes" where
  "AddPlayer_loop env player [] buf = buf"
| "AddPlayer_loop env player (existing # rest) buf =
     (if ptr existing = ptr player then AddPlayer_loop env player rest buf
      else AddPlayer_loop env player rest
             (buf @ WriteNamedEntitySpawn env (EntityID (Entity existing)) (name existing)
                      (position existing) (orientation existing) (currentItem existing)))"

text \<open>
  \<^verbatim>\<open>AddPlayer\<close>.  \<open>AddEntity\<close> is given a pointer into the player, so the player that is
  stored, announced and compared is the one \<open>AddEntity\<close> leaves.
\<close>

definition AddPlayer ::
  "('pos, 'ori, 'itm, 'em) Env \<Rightarrow> ('pos, 'ori, 'itm, 'em) Game \<Rightarrow> ('pos, 'ori, 'itm) Player
    \<Rightarrow> ('pos, 'ori, 'itm, 'em) Game" where
  "AddPlayer env game player =
     (let (em, ent) = AddEntity env (entityManager game) (Entity player);
          player = player\<lparr>Entity := ent\<rparr>;
          game = game\<lparr>entityManager := em\<rparr>;
          game = game\<lparr>players := AList.update (EntityID (Entity player)) player (players game)\<rparr>;
          game = SendChatMessage env game (name player @ '' has joined'');
          buf = [] @ WriteNamedEntitySpawn env (EntityID (Entity player)) (name player)
                       (position player) (orientation player) (currentItem player);
          game = MulticastRadiusPacket env game buf player;
          buf = AddPlayer_loop env player (PlayersInPlayerRadius env game player) []
      in TransmitPacket game player buf)"

definition RemovePlayer ::
  "('pos, 'ori, 'itm, 'em) Env \<Rightarrow> ('pos, 'ori, 'itm, 'em) Game \<Rightarrow> ('pos, 'ori, 'itm) Player
    \<Rightarrow> ('pos, 'ori, 'itm, 'em) Game" where
  "RemovePlayer env game player =
     (let buf = [] @ WriteDestroyEntity env (EntityID (Entity player));
          game = MulticastRadiusPacket env game buf player;
          game = game\<lparr>players := AList.delete (EntityID (Entity player)) (players game)\<rparr>;
          game = game\<lparr>entityManager := RemoveEntity env (entityManager game) (Entity player)\<rparr>
      in SendChatMessage env game (name player @ '' has left''))"

definition AddPickupItem ::
  "('pos, 'ori, 'itm, 'em) Env \<Rightarrow> ('pos, 'ori, 'itm, 'em) Game \<Rightarrow> 'pos PickupItem
    \<Rightarrow> ('pos, 'ori, 'itm, 'em) Game" where
  "AddPickupItem env game item =
     (let (em, ent) = AddEntity env (entityManager game) (itemEntity item);
          item = item\<lparr>itemEntity := ent\<rparr>;
          game = game\<lparr>entityManager := em\<rparr>;
          game = game\<lparr>pickupItems :=
                   AList.update (EntityID (itemEntity item)) item (pickupItems game)\<rparr>
      in case WritePickupSpawn env item of
           Inl err \<Rightarrow> game\<lparr>logged := logged game @ [''AddPickupItem'' @ err]\<rparr>
         | Inr written \<Rightarrow>
             MulticastChunkPacket env game ([] @ written) (ToChunkXZ env (itemPosition item)))"

subsection \<open>The clock\<close>

definition sendTimeUpdate ::
  "('pos, 'ori, 'itm, 'em) Env \<Rightarrow> ('pos, 'ori, 'itm, 'em) Game \<Rightarrow> ('pos, 'ori, 'itm, 'em) Game" where
  "sendTimeUpdate env game =
     (let buf = [] @ WriteTimeUpdate env (time game) in MulticastPacket game buf None)"

definition tick ::
  "('pos, 'ori, 'itm, 'em) Env \<Rightarrow> ('pos, 'ori, 'itm, 'em) Game \<Rightarrow> ('pos, 'ori, 'itm, 'em) Game" where
  "tick env game = sendTimeUpdate env (game\<lparr>time := time game + 20\<rparr>)"

section \<open>The world store (package worldstore)\<close>

subsection \<open>Data\<close>

text \<open>
  The tags of package \<^verbatim>\<open>nbt\<close> that the file asserts on, and one constructor for all the
  others.  Floating-point values are not inspected by the file, so their type is a parameter;
  so is the coordinate type \<^verbatim>\<open>AbsCoord\<close> of package \<^verbatim>\<open>types\<close>.
\<close>

datatype 'd ITag =
    NbtInt "32 word"
  | NbtLong "64 word"
  | NbtDouble 'd
  | NbtList "'d ITag list"
  | NbtOther

datatype 'c AbsXyz = AbsXyz 'c 'c 'c

datatype error = NewError string | BadType string

datatype DimensionId = DimensionNormal | DimensionOther int

text \<open>
  Chunk stores are built by constructors of packages \<^verbatim>\<open>chunkstore\<close> and
  \<^verbatim>\<open>generation\<close>, which are declared elsewhere; a store is the term that built it.
  \<open>Store\<close> wraps what \<^verbatim>\<open>ChunkStoreForLevel\<close> returned.
\<close>

datatype 'ps IChunkStore =
    Store 'ps
  | NewTestGenerator "64 word"
  | NewChunkService "'ps IChunkStore"
  | NewMultiStore "'ps IChunkStore list"

record ('t, 'c, 'ps) WorldStore =
  WorldPath :: string
  Seed :: "64 word"
  Time :: "64 word"
  LevelData :: 't
  ChunkStore :: "'ps IChunkStore"
  SpawnPosition :: "'c AbsXyz"

text \<open>
  What the file calls and does not define: the file system and the decoders
  (\<^verbatim>\<open>path.Join\<close>, \<^verbatim>\<open>os.Open\<close>, \<^verbatim>\<open>gzip.NewReader\<close>, \<^verbatim>\<open>nbt.Read\<close>; a file and
  a reader are the bytes they hold), the method \<^verbatim>\<open>Lookup\<close> of a tag (\<open>None\<close> is Go's
  \<^verbatim>\<open>nil\<close>), the conversions to \<^verbatim>\<open>AbsCoord\<close>, \<^verbatim>\<open>ChunkStoreForLevel\<close>, and the
  clock and random source behind \<^verbatim>\<open>rand.NewSource(time.Seconds()).Int63()\<close>.
\<close>

record ('t, 'd, 'c, 'ps) StoreEnv =
  pathJoin :: "string \<Rightarrow> string \<Rightarrow> string"
  osOpen :: "string \<Rightarrow> error + bytes"
  gzipNewReader :: "bytes \<Rightarrow> error + bytes"
  nbtRead :: "bytes \<Rightarrow> error + 't"
  Lookup :: "'t \<Rightarrow> string \<Rightarrow> 'd ITag option"
  AbsCoordOfInt :: "32 word \<Rightarrow> 'c"
  AbsCoordOfDouble :: "'d \<Rightarrow> 'c"
  ChunkStoreForLevel :: "string \<Rightarrow> 't \<Rightarrow> DimensionId \<Rightarrow> error + 'ps"
  timeSeconds :: "64 word"
  randSourceInt63 :: "64 word \<Rightarrow> 64 word"

subsection \<open>Type assertions\<close>

text \<open>
  \<^verbatim>\<open>v, ok := t.(*nbt.Int)\<close> and its siblings: \<open>Some\<close> the value when the tag has the
  asserted type, \<open>None\<close> when \<open>ok\<close> is false (also for \<^verbatim>\<open>nil\<close>).
\<close>

fun asInt :: "'d ITag option \<Rightarrow> 32 word option" where
  "asInt (Some (NbtInt v)) = Some v"
| "asInt _ = None"

fun asLong :: "'d ITag option \<Rightarrow> 64 word option" where
  "asLong (Some (NbtLong v)) = Some v"
| "asLong _ = None"

fun asDouble :: "'d ITag option \<Rightarrow> 'd option" where
  "asDouble (Some (NbtDouble v)) = Some v"
| "asDouble _ = None"

fun asList :: "'d ITag option \<Rightarrow> 'd ITag list option" where
  "asList (Some (NbtList vs)) = Some vs"
| "asList _ = None"

subsection \<open>Loading\<close>

definition loadLevelData ::
  "('t, 'd, 'c, 'ps) StoreEnv \<Rightarrow> string \<Rightarrow> error + 't" where
  "loadLevelData env worldPath =
     (case osOpen env (pathJoin env worldPath ''level.dat'') of
        Inl err \<Rightarrow> Inl err
      | Inr file \<Rightarrow>
          (case gzipNewReader env file of
             Inl err \<Rightarrow> Inl err
           | Inr gzipReader \<Rightarrow> nbtRead env gzipReader))"

text \<open>
  \<^verbatim>\<open>LoadWorldStore\<close> returns its result and, second, the stores whose \<^verbatim>\<open>Serve\<close> it
  has started with \<^verbatim>\<open>go\<close>, in the order it starts them.
\<close>

definition LoadWorldStore ::
  "('t, 'd, 'c, 'ps) StoreEnv \<Rightarrow> string
    \<Rightarrow> (error + ('t, 'c, 'ps) WorldStore) \<times> 'ps IChunkStore list" where
  "LoadWorldStore env worldPath =
     (case loadLevelData env worldPath of
        Inl err \<Rightarrow> (Inl err, [])
      | Inr levelData \<Rightarrow>
          (case (asInt (Lookup env levelData ''/Data/SpawnX''),
                 asInt (Lookup env levelData ''/Data/SpawnY''),
                 asInt (Lookup env levelData ''/Data/SpawnZ'')) of
             (Some x, Some y, Some z) \<Rightarrow>
               (let spawnPosition =
                      AbsXyz (AbsCoordOfInt env x) (AbsCoordOfInt env y) (AbsCoordOfInt env z);
                    timeTicks =
                      (case asLong (Lookup env levelData ''/Data/Time'') of
                         Some timeTag \<Rightarrow> timeTag
                       | None \<Rightarrow> 0)
                in case ChunkStoreForLevel env worldPath levelData DimensionNormal of
                     Inl err \<Rightarrow> (Inl err, [])
                   | Inr persistantChunkStore \<Rightarrow>
                       (let chunkStores = [] @ [NewChunkService (Store persistantChunkStore)];
                            seed =
                              (case asLong (Lookup env levelData ''/Data/RandomSeed'') of
                                 Some seedNbt \<Rightarrow> seedNbt
                               | None \<Rightarrow> randSourceInt63 env (timeSeconds env));
                            chunkStores = chunkStores @ [NewChunkService (NewTestGenerator seed)];
                            world =
                              \<lparr>WorldPath = worldPath,
                               Seed = seed,
                               Time = timeTicks,
                               LevelData = levelData,
                               ChunkStore = NewChunkService (NewMultiStore chunkStores),
                               SpawnPosition = spawnPosition\<rparr>
                        in (Inr world, chunkStores @ [ChunkStore world])))
           | _ \<Rightarrow>
               (Inl (NewError ''Invalid map level data: does not contain Spawn{X,Y,Z}''), [])))"

text \<open>
  \<^verbatim>\<open>absXyzFromNbt\<close>.  Indexing a list shorter than three elements is a run-time panic,
  which is the result \<open>None\<close>; the three index expressions are evaluated before any of the
  three flags is read.
\<close>

definition absXyzFromNbt ::
  "('t, 'd, 'c, 'ps) StoreEnv \<Rightarrow> 't \<Rightarrow> string \<Rightarrow> (error + 'c AbsXyz) option" where
  "absXyzFromNbt env tag path =
     (case asList (Lookup env tag path) of
        None \<Rightarrow> Some (Inl (BadType path))
      | Some posList \<Rightarrow>
          if length posList < 3 then None
          else
            (case (asDouble (Some (posList ! 0)),
                   asDouble (Some (posList ! 1)),
                   asDouble (Some (posList ! 2))) of
               (Some x, Some y, Some z) \<Rightarrow>
                 Some (Inr (AbsXyz (AbsCoordOfDouble env x) (AbsCoordOfDouble env y)
                              (AbsCoordOfDouble env z)))
             | _ \<Rightarrow> Some (Inl (BadType path))))"

subsection \<open>Querying the composed store\<close>

text \<open>
  Modelled from the spec: the lookup of package \<^verbatim>\<open>chunkstore\<close> (what a store built by
  \<^verbatim>\<open>NewChunkService\<close> or \<^verbatim>\<open>NewMultiStore\<close> answers) is not in the files at hand.
  The spec says that the combinator holds an ordered list of tiers, that for a coordinate it
  queries the tiers in priority order and returns the first present result, and that the query
  is a miss if no tier has the chunk; a service answers for the one source it wraps.
  \<open>readStore\<close> is what the persistent store holds and \<open>generate\<close> what the generator
  produces for a seed.  The second component lists the sources invoked, in order.
\<close>

fun queryChunk ::
  "('ps \<Rightarrow> ChunkXZ \<Rightarrow> 'chunk option) \<Rightarrow> (64 word \<Rightarrow> ChunkXZ \<Rightarrow> 'chunk option)
    \<Rightarrow> 'ps IChunkStore \<Rightarrow> ChunkXZ \<Rightarrow> 'chunk option \<times> 'ps IChunkStore list" where
  "queryChunk readStore generate (Store ps) loc = (readStore ps loc, [Store ps])"
| "queryChunk readStore generate (NewTestGenerator seed) loc =
     (generate seed loc, [NewTestGenerator seed])"
| "queryChunk readStore generate (NewChunkService store) loc =
     queryChunk readStore generate store loc"
| "queryChunk readStore generate (NewMultiStore []) loc = (None, [])"
| "queryChunk readStore generate (NewMultiStore (tier # tiers)) loc =
     (case queryChunk readStore generate tier loc of
        (Some chunk, invoked) \<Rightarrow> (Some chunk, invoked)
      | (None, invoked) \<Rightarrow>
          (case queryChunk readStore generate (NewMultiStore tiers) loc of
             (result, invoked') \<Rightarrow> (result, invoked @ invoked')))"

section \<open>Example values\<close>

text \<open>
  A concrete instance of the collaborators, used to run the operations: positions are chunk
  coordinates, the entity manager is the list of identifiers in use and hands out its length,
  and writing a pickup spawn fails for an item west of the origin.
\<close>

definition exampleEnv :: "(ChunkXZ, unit, unit, EntityID list) Env" where
  "exampleEnv =
     \<lparr>ChunkRadius = 10,
      ToChunkXZ = (\<lambda>pos. pos),
      AddEntity = (\<lambda>em ent. (em @ [int (length em)], ent\<lparr>EntityID := int (length em)\<rparr>)),
      RemoveEntity = (\<lambda>em ent. removeAll (EntityID ent) em),
      WriteNamedEntitySpawn = (\<lambda>i n pos ori itm. [20, word_of_int i]),
      WriteDestroyEntity = (\<lambda>i. [29, word_of_int i]),
      WritePickupSpawn =
        (\<lambda>item. if chunkX (itemPosition item) < 0 then Inl '': short write''
                else Inr [21, word_of_int (EntityID (itemEntity item))]),
      WriteChatMessage = (\<lambda>message. [3, of_nat (length message)]),
      WriteTimeUpdate = (\<lambda>t. [4, ucast t])\<rparr>"

definition examplePlayer ::
  "nat \<Rightarrow> EntityID \<Rightarrow> string \<Rightarrow> int \<Rightarrow> int \<Rightarrow> (ChunkXZ, unit, unit) Player" where
  "examplePlayer a i n px pz =
     \<lparr>ptr = a, Entity = \<lparr>EntityID = i\<rparr>, name = n,
      position = \<lparr>chunkX = px, chunkZ = pz\<rparr>, orientation = (), currentItem = ()\<rparr>"

definition exampleGame :: "(ChunkXZ, unit, unit, EntityID list) Game" where
  "exampleGame =
     \<lparr>entityManager = [0, 1],
      players = [(0, examplePlayer 100 0 ''alice'' 0 100), (1, examplePlayer 101 1 ''bob'' 11 0)],
      pickupItems = [],
      time = 0,
      sent = [],
      logged = []\<rparr>"

text \<open>
  A concrete instance of the world store's collaborators: every file opens and decodes to the
  given level data, a list of paths with their tags; floating-point values and coordinates
  are stood for by integers.
\<close>

definition exampleStoreEnv ::
  "(string \<times> int ITag) list \<Rightarrow> ((string \<times> int ITag) list, int, int, string) StoreEnv" where
  "exampleStoreEnv level =
     \<lparr>pathJoin = (\<lambda>dir file. dir @ ''/'' @ file),
      osOpen = (\<lambda>file. Inr []),
      gzipNewReader = (\<lambda>file. Inr file),
      nbtRead = (\<lambda>reader. Inr level),
      Lookup = (\<lambda>tag path. map_of tag path),
      AbsCoordOfInt = sint,
      AbsCoordOfDouble = (\<lambda>d. d),
      ChunkStoreForLevel = (\<lambda>worldPath tag dimension. Inr worldPath),
      timeSeconds = 1300000000,
      randSourceInt63 = (\<lambda>seed. seed + 11)\<rparr>"

definition intSpawnLevel :: "(string \<times> int ITag) list" where
  "intSpawnLevel =
     [(''/Data/SpawnX'', NbtInt 0), (''/Data/SpawnY'', NbtInt 64), (''/Data/SpawnZ'', NbtInt 0)]"

definition doubleSpawnLevel :: "(string \<times> int ITag) list" where
  "doubleSpawnLevel =
     [(''/Data/SpawnX'', NbtDouble 0), (''/Data/SpawnY'', NbtDouble 64),
      (''/Data/SpawnZ'', NbtDouble 0)]"

definition posLevel :: "(string \<times> int ITag) list" where
  "posLevel = [(''/Data/Player/Pos'', NbtList [NbtDouble 8, NbtDouble 65, NbtDouble (- 3)])]"

text \<open>A directory in which carol stands in chunk (0, 100), the chunk alice stands in.\<close>

definition exampleGameSameChunk :: "(ChunkXZ, unit, unit, EntityID list) Game" where
  "exampleGameSameChunk =
     \<lparr>entityManager = [0, 1, 2],
      players = [(0, examplePlayer 100 0 ''alice'' 0 100), (1, examplePlayer 101 1 ''bob'' 11 0),
                 (2, examplePlayer 102 2 ''carol'' 0 100)],
      pickupItems = [],
      time = 0,
      sent = [],
      logged = []\<rparr>"

definition badPosLevel :: "(string \<times> int ITag) list" where
  "badPosLevel = [(''/Data/Player/Pos'', NbtList [NbtDouble 8, NbtInt 65, NbtDouble (- 3)])]"


section \<open>Facts about the loops\<close>

lemma MulticastPacket_loop_sent:
  "MulticastPacket_loop packet except ps game =
     game\<lparr>sent := sent game
       @ map (\<lambda>q. (ptr q, packet)) (filter (\<lambda>q. Some (ptr q) \<noteq> except) ps)\<rparr>"
  by (induction ps arbitrary: game) (simp_all add: TransmitPacket_def)

lemma MulticastRadiusPacket_loop_sent:
  "MulticastRadiusPacket_loop packet sender rs game =
     game\<lparr>sent := sent game
       @ map (\<lambda>q. (ptr q, packet)) (filter (\<lambda>q. ptr q \<noteq> ptr sender) rs)\<rparr>"
  by (induction rs arbitrary: game) (simp_all add: TransmitPacket_def)

lemma MulticastChunkPacket_loop_sent:
  "MulticastChunkPacket_loop packet rs game =
     game\<lparr>sent := sent game @ map (\<lambda>q. (ptr q, packet)) rs\<rparr>"
  by (induction rs arbitrary: game) (simp_all add: TransmitPacket_def)

lemma AddPlayer_loop_buf:
  "AddPlayer_loop env player rs buf =
     buf @ concat (map (\<lambda>e. WriteNamedEntitySpawn env (EntityID (Entity e)) (name e)
                            (position e) (orientation e) (currentItem e))
                     (filter (\<lambda>e. ptr e \<noteq> ptr player) rs))"
  by (induction rs arbitrary: buf) simp_all

lemma SendChatMessage_sent:
  "SendChatMessage env game message =
     game\<lparr>sent := sent game
       @ map (\<lambda>q. (ptr q, WriteChatMessage env message)) (map snd (players game))\<rparr>"
  by (simp add: SendChatMessage_def MulticastPacket_def MulticastPacket_loop_sent)

lemma MulticastRadiusPacket_sent:
  "MulticastRadiusPacket env game packet sender =
     game\<lparr>sent := sent game
       @ map (\<lambda>q. (ptr q, packet))
           (filter (\<lambda>q. ptr q \<noteq> ptr sender) (PlayersInPlayerRadius env game sender))\<rparr>"
  by (simp add: MulticastRadiusPacket_def MulticastRadiusPacket_loop_sent)

text \<open>The radius set depends on the directory and on the position of the centre only.\<close>

lemma PlayersInPlayerRadius_cong:
  "players game' = players game \<Longrightarrow> position q' = position q \<Longrightarrow>
   PlayersInPlayerRadius env game' q' = PlayersInPlayerRadius env game q"
  by (simp add: PlayersInPlayerRadius_def PlayersInRadius_def)

text \<open>What the code's test admits: the upper bound is one past the radius, and on both axes
  it is taken from the origin's \<open>x\<close>.\<close>

lemma PlayersInRadius_mem:
  "q \<in> set (PlayersInRadius env game loc) \<longleftrightarrow>
     q \<in> snd ` set (players game) \<and>
     chunkX loc - ChunkRadius env \<le> chunkX (ToChunkXZ env (position q)) \<and>
     chunkX (ToChunkXZ env (position q)) \<le> chunkX loc + ChunkRadius env + 1 \<and>
     chunkZ loc - ChunkRadius env \<le> chunkZ (ToChunkXZ env (position q)) \<and>
     chunkZ (ToChunkXZ env (position q)) \<le> chunkX loc + ChunkRadius env + 1"
  by (auto simp add: PlayersInRadius_def Let_def)

section \<open>Radius membership\<close>

text \<open>
  C1.  The claim: a player whose chunk is (px, pz) is in the result of
  \<^verbatim>\<open>PlayersInRadius(X, Z)\<close> iff |px - X| \<le> ChunkRadius and |pz - Z| \<le> ChunkRadius.  The
  code does not do this.  With radius 10, alice stands in chunk (0, 100) and bob in chunk
  (11, 0).  A query at (0, 100), alice's own chunk, returns nobody, because the upper bound
  for z is computed from the origin's x (0 + 10 + 1 = 11 < 100); a query at (0, 0) returns
  bob, who is 11 chunks away on the x axis, because the upper bound is one past the radius.
\<close>

theorem PlayersInRadius_bounds_not_symmetric:
  "PlayersInRadius exampleEnv exampleGame \<lparr>chunkX = 0, chunkZ = 100\<rparr> = []
   \<and> PlayersInRadius exampleEnv exampleGame \<lparr>chunkX = 0, chunkZ = 0\<rparr>
       = [examplePlayer 101 1 ''bob'' 11 0]"
  by (simp add: PlayersInRadius_def exampleEnv_def exampleGame_def examplePlayer_def)

section \<open>The clock\<close>

lemma sint_add_no_overflow:
  fixes w :: "64 word"
  assumes "0 \<le> j" and "sint w + j < 2 ^ 63"
  shows "sint (w + word_of_int j) = sint w + j"
proof -
  have lower: "- (2 ^ 63) \<le> sint w + j"
    using sint_ge [of w] assms(1) by simp
  have "w + word_of_int j = word_of_int (sint w + j)"
    by simp
  then have "sint (w + word_of_int j) = signed_take_bit 63 (sint w + j)"
    by (simp only: sint_sbintrunc') simp
  also have "\<dots> = sint w + j"
    using lower assms(2) by (rule signed_take_bit_int_eq_self)
  finally show ?thesis .
qed

lemma tick_unfold:
  "tick env g =
     g\<lparr>time := time g + 20,
       sent := sent g
         @ map (\<lambda>q. (ptr q, WriteTimeUpdate env (time g + 20))) (map snd (players g))\<rparr>"
  by (simp add: tick_def sendTimeUpdate_def MulticastPacket_def MulticastPacket_loop_sent)

lemma tick_funpow_time:
  "time ((tick env ^^ n) g) = time g + 20 * of_nat n"
  by (induction n) (simp_all add: tick_unfold algebra_simps)

text \<open>
  C4, as stated, fails: the clock is an \<^verbatim>\<open>int64\<close>, and a Tick applied at the largest
  value wraps around to a negative clock, so the clock does not always increase.
\<close>

theorem tick_wraps_at_int64_max:
  "sint (time (exampleGame\<lparr>time := 9223372036854775807\<rparr>)) = 9223372036854775807
   \<and> sint (time (tick exampleEnv (exampleGame\<lparr>time := 9223372036854775807\<rparr>)))
       = - 9223372036854775789"
  by (simp add: tick_unfold)

text \<open>
  C4, amended.  Every Tick adds 20 to the clock in 64-bit arithmetic, so \<open>n\<close> Ticks from
  clock \<open>t\<close> leave \<open>t + 20 * n\<close> modulo \<open>2 ^ 64\<close>; as long as \<open>t + 20 * n\<close> does not exceed the
  largest \<^verbatim>\<open>int64\<close>, the signed clock is exactly \<open>t + 20 * n\<close> (and so strictly
  increases with every Tick).  After a Tick, every player of the directory has been sent one
  time update, and the value written into it is the clock of the game after the Tick.
\<close>

theorem tick_adds_20:
  "time (tick env g) = time g + 20
   \<and> time ((tick env ^^ n) g) = time g + 20 * of_nat n
   \<and> sent (tick env g) =
       sent g
       @ map (\<lambda>q. (ptr q, WriteTimeUpdate env (time (tick env g)))) (map snd (players g))
   \<and> players (tick env g) = players g
   \<and> (sint (time g) + 20 * int n < 2 ^ 63 \<longrightarrow>
        sint (time ((tick env ^^ n) g)) = sint (time g) + 20 * int n)"
proof -
  have "sint (time g + 20 * of_nat n) = sint (time g) + 20 * int n"
    if "sint (time g) + 20 * int n < 2 ^ 63"
    using sint_add_no_overflow [of "20 * int n" "time g"] that by simp
  then show ?thesis
    by (simp add: tick_funpow_time) (simp add: tick_unfold)
qed

theorem tick_adds_20_witness:
  "sint (time exampleGame) + 20 * int 3 < 2 ^ 63
   \<and> sint (time ((tick exampleEnv ^^ 3) exampleGame)) = 60
   \<and> sent (tick exampleEnv exampleGame) = [(100, [4, 20]), (101, [4, 20])]"
  using tick_adds_20 [where g = exampleGame and n = 3 and env = exampleEnv]
  by (simp add: exampleGame_def exampleEnv_def examplePlayer_def)

section \<open>Players joining\<close>

lemma AddPlayer_unfold:
  assumes "AddEntity env (entityManager g) (Entity p) = (em, ent)"
  shows "AddPlayer env g p =
    g\<lparr>entityManager := em,
      players := AList.update (EntityID ent) (p\<lparr>Entity := ent\<rparr>) (players g),
      sent := sent g
        @ map (\<lambda>q. (ptr q, WriteChatMessage env (name p @ '' has joined'')))
            (map snd (AList.update (EntityID ent) (p\<lparr>Entity := ent\<rparr>) (players g)))
        @ map (\<lambda>q. (ptr q, WriteNamedEntitySpawn env (EntityID ent) (name p) (position p)
                              (orientation p) (currentItem p)))
            (filter (\<lambda>q. ptr q \<noteq> ptr p)
               (PlayersInPlayerRadius env
                  (g\<lparr>players := AList.update (EntityID ent) (p\<lparr>Entity := ent\<rparr>) (players g)\<rparr>) p))
        @ [(ptr p, concat (map (\<lambda>e. WriteNamedEntitySpawn env (EntityID (Entity e)) (name e)
                      (position e) (orientation e) (currentItem e))
               (filter (\<lambda>q. ptr q \<noteq> ptr p)
                  (PlayersInPlayerRadius env
                    (g\<lparr>players := AList.update (EntityID ent) (p\<lparr>Entity := ent\<rparr>) (players g)\<rparr>) p))))]\<rparr>"
proof -
  let ?p = "p\<lparr>Entity := ent\<rparr>"
  let ?dir = "AList.update (EntityID ent) ?p (players g)"
  have r: "\<And>g'. players g' = ?dir \<Longrightarrow>
     PlayersInPlayerRadius env g' ?p = PlayersInPlayerRadius env (g\<lparr>players := ?dir\<rparr>) p"
    by (rule PlayersInPlayerRadius_cong) simp_all
  show ?thesis
    using assms
    by (simp add: AddPlayer_def Let_def SendChatMessage_sent MulticastRadiusPacket_sent
        AddPlayer_loop_buf TransmitPacket_def r)
qed

text \<open>
  C2.  The claim: \<^verbatim>\<open>AddPlayer(p)\<close> registers \<open>p\<close>, stores it in the directory, sends the join
  chat message to every player of the directory, sends the spawn notification of \<open>p\<close> to every
  player in \<open>p\<close>'s interest-radius set but \<open>p\<close>, and sends \<open>p\<close> one buffer with a spawn
  notification for each existing player of that set.  The code takes these steps in this order,
  but the set it notifies is the result of \<^verbatim>\<open>PlayersInPlayerRadius\<close>, whose bounds are wrong
  (see C1), so players inside the radius are left out.  With radius 10, alice stands in chunk
  (0, 100) and carol joins in that same chunk: everybody is sent the join chat message, but
  alice is sent no spawn notification for carol, and the buffer sent to carol is empty, with no
  spawn notification for alice.
\<close>

theorem AddPlayer_no_spawn_in_own_chunk:
  "ChunkRadius exampleEnv = 10
   \<and> ToChunkXZ exampleEnv (position (examplePlayer 100 0 ''alice'' 0 100))
       = \<lparr>chunkX = 0, chunkZ = 100\<rparr>
   \<and> ToChunkXZ exampleEnv (position (examplePlayer 102 7 ''carol'' 0 100))
       = \<lparr>chunkX = 0, chunkZ = 100\<rparr>
   \<and> AddPlayer exampleEnv exampleGame (examplePlayer 102 7 ''carol'' 0 100) =
       exampleGame
         \<lparr>entityManager := [0, 1, 2],
          players := [(0, examplePlayer 100 0 ''alice'' 0 100), (1, examplePlayer 101 1 ''bob'' 11 0),
                      (2, examplePlayer 102 2 ''carol'' 0 100)],
          sent := [(100, [3, 16]), (101, [3, 16]), (102, [3, 16]), (102, [])]\<rparr>"
proof -
  have a: "AddEntity exampleEnv (entityManager exampleGame)
             (Entity (examplePlayer 102 7 ''carol'' 0 100))
           = ([0, 1, 2], \<lparr>EntityID = 2\<rparr>)"
    by (simp add: exampleEnv_def exampleGame_def examplePlayer_def)
  show ?thesis
    by (simp add: AddPlayer_unfold [OF a])
       (simp add: exampleEnv_def exampleGame_def examplePlayer_def PlayersInPlayerRadius_def
          PlayersInRadius_def)
qed

text \<open>
  C9.  The claim: the buffer of spawn notifications is transmitted to the new player in every
  case, and when no other player lies within the new player's interest radius the packet is
  the empty buffer.  The code does transmit the buffer in every case, as its last step, but it
  fills the buffer from the result of \<^verbatim>\<open>PlayersInPlayerRadius\<close>, whose upper bound is one
  past the radius (see C1).  With radius 10, alice stands in chunk (0, 100) and bob in chunk
  (11, 0), and carol joins in chunk (0, 0): alice is 100 chunks away and bob 11, so nobody
  lies within carol's radius, yet the packet sent to carol last is not empty but holds the
  spawn notification of bob (and bob is sent the spawn notification of carol).
\<close>

theorem AddPlayer_batch_not_empty_beyond_radius:
  "ChunkRadius exampleEnv = 10
   \<and> ToChunkXZ exampleEnv (position (examplePlayer 100 0 ''alice'' 0 100))
       = \<lparr>chunkX = 0, chunkZ = 100\<rparr>
   \<and> ToChunkXZ exampleEnv (position (examplePlayer 101 1 ''bob'' 11 0))
       = \<lparr>chunkX = 11, chunkZ = 0\<rparr>
   \<and> ToChunkXZ exampleEnv (position (examplePlayer 102 7 ''carol'' 0 0))
       = \<lparr>chunkX = 0, chunkZ = 0\<rparr>
   \<and> players exampleGame
       = [(0, examplePlayer 100 0 ''alice'' 0 100), (1, examplePlayer 101 1 ''bob'' 11 0)]
   \<and> sent (AddPlayer exampleEnv exampleGame (examplePlayer 102 7 ''carol'' 0 0))
       = [(100, [3, 16]), (101, [3, 16]), (102, [3, 16]), (101, [20, 2]), (102, [20, 1])]"
proof -
  have a: "AddEntity exampleEnv (entityManager exampleGame)
             (Entity (examplePlayer 102 7 ''carol'' 0 0))
           = ([0, 1, 2], \<lparr>EntityID = 2\<rparr>)"
    by (simp add: exampleEnv_def exampleGame_def examplePlayer_def)
  show ?thesis
    by (simp add: AddPlayer_unfold [OF a])
       (simp add: exampleEnv_def exampleGame_def examplePlayer_def PlayersInPlayerRadius_def
          PlayersInRadius_def)
qed

section \<open>Players leaving\<close>

lemma RemovePlayer_unfold:
  "RemovePlayer env g p =
     g\<lparr>entityManager := RemoveEntity env (entityManager g) (Entity p),
       players := AList.delete (EntityID (Entity p)) (players g),
       sent := sent g
         @ map (\<lambda>q. (ptr q, WriteDestroyEntity env (EntityID (Entity p))))
             (filter (\<lambda>q. ptr q \<noteq> ptr p) (PlayersInPlayerRadius env g p))
         @ map (\<lambda>q. (ptr q, WriteChatMessage env (name p @ '' has left'')))
             (map snd (AList.delete (EntityID (Entity p)) (players g)))\<rparr>"
  by (simp add: RemovePlayer_def Let_def MulticastRadiusPacket_sent SendChatMessage_sent)

text \<open>
  C5.  The claim: \<^verbatim>\<open>RemovePlayer(p)\<close> sends the destroy notification for \<open>p\<close>'s identifier
  to \<open>p\<close>'s interest-radius set but \<open>p\<close>, unregisters \<open>p\<close>, erases it from the directory, and
  sends the leave chat message to the players that remain.  The code takes these steps, but
  the set it notifies is the result of \<^verbatim>\<open>PlayersInPlayerRadius\<close>, whose bounds are wrong
  (see C1), so players inside the radius are left out.  With radius 10, alice and carol stand
  in chunk (0, 100) and carol leaves: carol is unregistered and erased and the two players
  that remain are sent the leave chat message, but alice is sent no destroy notification.
\<close>

theorem RemovePlayer_no_destroy_in_own_chunk:
  "ChunkRadius exampleEnv = 10
   \<and> ToChunkXZ exampleEnv (position (examplePlayer 100 0 ''alice'' 0 100))
       = \<lparr>chunkX = 0, chunkZ = 100\<rparr>
   \<and> ToChunkXZ exampleEnv (position (examplePlayer 102 2 ''carol'' 0 100))
       = \<lparr>chunkX = 0, chunkZ = 100\<rparr>
   \<and> RemovePlayer exampleEnv exampleGameSameChunk (examplePlayer 102 2 ''carol'' 0 100) =
       exampleGameSameChunk
         \<lparr>entityManager := [0, 1],
          players := [(0, examplePlayer 100 0 ''alice'' 0 100), (1, examplePlayer 101 1 ''bob'' 11 0)],
          sent := [(100, [3, 14]), (101, [3, 14])]\<rparr>"
  by (simp add: RemovePlayer_unfold)
     (simp add: exampleEnv_def exampleGameSameChunk_def examplePlayer_def PlayersInPlayerRadius_def
        PlayersInRadius_def AList.delete_eq)

section \<open>Items\<close>

text \<open>
  C6.  When \<^verbatim>\<open>WritePickupSpawn\<close> fails for the item, \<^verbatim>\<open>AddPickupItem\<close> returns the
  game with the entity manager as \<open>AddEntity\<close> left it and the item stored in the item
  directory under its identifier; one line is logged, nothing is sent, and nothing else of the
  game changes.
\<close>

theorem AddPickupItem_failure_keeps_registration:
  assumes "AddEntity env (entityManager g) (itemEntity item) = (em, ent)"
    and "WritePickupSpawn env (item\<lparr>itemEntity := ent\<rparr>) = Inl err"
  shows "AddPickupItem env g item =
           g\<lparr>entityManager := em,
             pickupItems := AList.update (EntityID ent) (item\<lparr>itemEntity := ent\<rparr>) (pickupItems g),
             logged := logged g @ [''AddPickupItem'' @ err]\<rparr>
         \<and> sent (AddPickupItem env g item) = sent g
         \<and> entityManager (AddPickupItem env g item) = em
         \<and> map_of (pickupItems (AddPickupItem env g item)) (EntityID ent)
             = Some (item\<lparr>itemEntity := ent\<rparr>)"
  using assms by (simp add: AddPickupItem_def Let_def AList.update_conv')

theorem AddPickupItem_failure_keeps_registration_witness:
  "AddEntity exampleEnv (entityManager exampleGame)
      (itemEntity \<lparr>itemEntity = \<lparr>EntityID = 9\<rparr>, itemPosition = \<lparr>chunkX = - 1, chunkZ = 0\<rparr>\<rparr>)
     = ([0, 1, 2], \<lparr>EntityID = 2\<rparr>)
   \<and> WritePickupSpawn exampleEnv
        \<lparr>itemEntity = \<lparr>EntityID = 2\<rparr>, itemPosition = \<lparr>chunkX = - 1, chunkZ = 0\<rparr>\<rparr>
     = Inl '': short write''
   \<and> AddPickupItem exampleEnv exampleGame
        \<lparr>itemEntity = \<lparr>EntityID = 9\<rparr>, itemPosition = \<lparr>chunkX = - 1, chunkZ = 0\<rparr>\<rparr> =
       exampleGame
         \<lparr>entityManager := [0, 1, 2],
          pickupItems :=
            [(2, \<lparr>itemEntity = \<lparr>EntityID = 2\<rparr>, itemPosition = \<lparr>chunkX = - 1, chunkZ = 0\<rparr>\<rparr>)],
          logged := [''AddPickupItem: short write'']\<rparr>"
proof -
  let ?item = "\<lparr>itemEntity = \<lparr>EntityID = 9\<rparr>, itemPosition = \<lparr>chunkX = - 1, chunkZ = 0\<rparr>\<rparr>"
  have a: "AddEntity exampleEnv (entityManager exampleGame) (itemEntity ?item)
     = ([0, 1, 2], \<lparr>EntityID = 2\<rparr>)"
    by (simp add: exampleEnv_def exampleGame_def)
  have b: "WritePickupSpawn exampleEnv (?item\<lparr>itemEntity := \<lparr>EntityID = 2\<rparr>\<rparr>) = Inl '': short write''"
    by (simp add: exampleEnv_def)
  show ?thesis
    using AddPickupItem_failure_keeps_registration [OF a b, THEN conjunct1] a b
    by (simp add: exampleGame_def)
qed

section \<open>Loading the world\<close>

lemma asInt_None: "asInt t = None \<longleftrightarrow> (\<forall>v. t \<noteq> Some (NbtInt v))"
  by (cases t rule: asInt.cases) simp_all

lemma asDouble_None: "asDouble t = None \<longleftrightarrow> (\<forall>v. t \<noteq> Some (NbtDouble v))"
  by (cases t rule: asDouble.cases) simp_all

lemma asDouble_Some: "asDouble t = Some v \<longleftrightarrow> t = Some (NbtDouble v)"
  by (cases t rule: asDouble.cases) simp_all

lemma asList_None: "asList t = None \<longleftrightarrow> (\<forall>v. t \<noteq> Some (NbtList v))"
  by (cases t rule: asList.cases) simp_all

lemma asList_Some: "asList t = Some v \<longleftrightarrow> t = Some (NbtList v)"
  by (cases t rule: asList.cases) simp_all

lemma LoadWorldStore_missing:
  assumes "loadLevelData env worldPath = Inr levelData"
    and "(\<forall>x. Lookup env levelData ''/Data/SpawnX'' \<noteq> Some (NbtInt x))
         \<or> (\<forall>y. Lookup env levelData ''/Data/SpawnY'' \<noteq> Some (NbtInt y))
         \<or> (\<forall>z. Lookup env levelData ''/Data/SpawnZ'' \<noteq> Some (NbtInt z))"
  shows "LoadWorldStore env worldPath
     = (Inl (NewError ''Invalid map level data: does not contain Spawn{X,Y,Z}''), [])"
proof -
  from assms(2) have "asInt (Lookup env levelData ''/Data/SpawnX'') = None
      \<or> asInt (Lookup env levelData ''/Data/SpawnY'') = None
      \<or> asInt (Lookup env levelData ''/Data/SpawnZ'') = None"
    by (simp add: asInt_None)
  then show ?thesis
    by (auto simp add: LoadWorldStore_def assms(1) split: option.splits)
qed

lemma LoadWorldStore_present:
  assumes "loadLevelData env worldPath = Inr levelData"
    and "Lookup env levelData ''/Data/SpawnX'' = Some (NbtInt x)"
    and "Lookup env levelData ''/Data/SpawnY'' = Some (NbtInt y)"
    and "Lookup env levelData ''/Data/SpawnZ'' = Some (NbtInt z)"
    and "ChunkStoreForLevel env worldPath levelData DimensionNormal = Inr ps"
  shows "LoadWorldStore env worldPath =
     (Inr \<lparr>WorldPath = worldPath,
           Seed = (case asLong (Lookup env levelData ''/Data/RandomSeed'') of
                     Some s \<Rightarrow> s | None \<Rightarrow> randSourceInt63 env (timeSeconds env)),
           Time = (case asLong (Lookup env levelData ''/Data/Time'') of
                     Some t \<Rightarrow> t | None \<Rightarrow> 0),
           LevelData = levelData,
           ChunkStore = NewChunkService (NewMultiStore
              [NewChunkService (Store ps),
               NewChunkService (NewTestGenerator
                 (case asLong (Lookup env levelData ''/Data/RandomSeed'') of
                     Some s \<Rightarrow> s | None \<Rightarrow> randSourceInt63 env (timeSeconds env)))]),
           SpawnPosition = AbsXyz (AbsCoordOfInt env x) (AbsCoordOfInt env y) (AbsCoordOfInt env z)\<rparr>,
      [NewChunkService (Store ps),
       NewChunkService (NewTestGenerator
                 (case asLong (Lookup env levelData ''/Data/RandomSeed'') of
                     Some s \<Rightarrow> s | None \<Rightarrow> randSourceInt63 env (timeSeconds env))),
       NewChunkService (NewMultiStore
              [NewChunkService (Store ps),
               NewChunkService (NewTestGenerator
                 (case asLong (Lookup env levelData ''/Data/RandomSeed'') of
                     Some s \<Rightarrow> s | None \<Rightarrow> randSourceInt63 env (timeSeconds env)))])])"
  using assms by (simp add: LoadWorldStore_def Let_def)

lemma exampleStoreEnv_load: "loadLevelData (exampleStoreEnv level) worldPath = Inr level"
  by (simp add: loadLevelData_def exampleStoreEnv_def)

text \<open>
  C3, as stated, fails: given three floating-point spawn coordinates, \<^verbatim>\<open>LoadWorldStore\<close>
  extracts no spawn position but fails with the missing-field error.
\<close>

theorem LoadWorldStore_doubles_rejected:
  "LoadWorldStore (exampleStoreEnv doubleSpawnLevel) ''world''
     = (Inl (NewError ''Invalid map level data: does not contain Spawn{X,Y,Z}''), [])"
  by (simp add: LoadWorldStore_def loadLevelData_def exampleStoreEnv_def doubleSpawnLevel_def)

text \<open>
  C3, amended.  Once the level data is read: given three \<^verbatim>\<open>Int\<close> spawn coordinates
  (and a persistent store for the level), \<^verbatim>\<open>LoadWorldStore\<close> succeeds with the spawn
  position built from them, with the elapsed time zero when the time field is absent and the
  field's value when it is a \<^verbatim>\<open>Long\<close>, and with the seed drawn from the clock-seeded random
  source when the seed field is absent and the field's value when it is a \<^verbatim>\<open>Long\<close>.  If
  one of the three spawn coordinates is absent or is not an \<^verbatim>\<open>Int\<close>, it fails with the
  missing-field error and has started no service.
\<close>

theorem LoadWorldStore_spawn_time_seed:
  assumes "loadLevelData env worldPath = Inr levelData"
  shows
    "(\<forall>x y z ps.
        Lookup env levelData ''/Data/SpawnX'' = Some (NbtInt x)
        \<and> Lookup env levelData ''/Data/SpawnY'' = Some (NbtInt y)
        \<and> Lookup env levelData ''/Data/SpawnZ'' = Some (NbtInt z)
        \<and> ChunkStoreForLevel env worldPath levelData DimensionNormal = Inr ps \<longrightarrow>
        (\<exists>world.
           fst (LoadWorldStore env worldPath) = Inr world
           \<and> SpawnPosition world
               = AbsXyz (AbsCoordOfInt env x) (AbsCoordOfInt env y) (AbsCoordOfInt env z)
           \<and> (Lookup env levelData ''/Data/Time'' = None \<longrightarrow> Time world = 0)
           \<and> (\<forall>t. Lookup env levelData ''/Data/Time'' = Some (NbtLong t) \<longrightarrow> Time world = t)
           \<and> (Lookup env levelData ''/Data/RandomSeed'' = None \<longrightarrow>
                Seed world = randSourceInt63 env (timeSeconds env))
           \<and> (\<forall>s. Lookup env levelData ''/Data/RandomSeed'' = Some (NbtLong s) \<longrightarrow>
                Seed world = s)))
     \<and> ((\<forall>x. Lookup env levelData ''/Data/SpawnX'' \<noteq> Some (NbtInt x))
          \<or> (\<forall>y. Lookup env levelData ''/Data/SpawnY'' \<noteq> Some (NbtInt y))
          \<or> (\<forall>z. Lookup env levelData ''/Data/SpawnZ'' \<noteq> Some (NbtInt z)) \<longrightarrow>
         LoadWorldStore env worldPath
           = (Inl (NewError ''Invalid map level data: does not contain Spawn{X,Y,Z}''), []))"
proof (intro conjI allI impI)
  fix x y z ps
  assume h: "Lookup env levelData ''/Data/SpawnX'' = Some (NbtInt x)
        \<and> Lookup env levelData ''/Data/SpawnY'' = Some (NbtInt y)
        \<and> Lookup env levelData ''/Data/SpawnZ'' = Some (NbtInt z)
        \<and> ChunkStoreForLevel env worldPath levelData DimensionNormal = Inr ps"
  show "\<exists>world.
           fst (LoadWorldStore env worldPath) = Inr world
           \<and> SpawnPosition world
               = AbsXyz (AbsCoordOfInt env x) (AbsCoordOfInt env y) (AbsCoordOfInt env z)
           \<and> (Lookup env levelData ''/Data/Time'' = None \<longrightarrow> Time world = 0)
           \<and> (\<forall>t. Lookup env levelData ''/Data/Time'' = Some (NbtLong t) \<longrightarrow> Time world = t)
           \<and> (Lookup env levelData ''/Data/RandomSeed'' = None \<longrightarrow>
                Seed world = randSourceInt63 env (timeSeconds env))
           \<and> (\<forall>s. Lookup env levelData ''/Data/RandomSeed'' = Some (NbtLong s) \<longrightarrow>
                Seed world = s)"
    using h by (simp add: LoadWorldStore_present [OF assms, of x y z ps])
next
  assume "(\<forall>x. Lookup env levelData ''/Data/SpawnX'' \<noteq> Some (NbtInt x))
          \<or> (\<forall>y. Lookup env levelData ''/Data/SpawnY'' \<noteq> Some (NbtInt y))
          \<or> (\<forall>z. Lookup env levelData ''/Data/SpawnZ'' \<noteq> Some (NbtInt z))"
  with assms show "LoadWorldStore env worldPath
           = (Inl (NewError ''Invalid map level data: does not contain Spawn{X,Y,Z}''), [])"
    by (rule LoadWorldStore_missing)
qed

theorem LoadWorldStore_spawn_time_seed_witness:
  "loadLevelData (exampleStoreEnv intSpawnLevel) ''world'' = Inr intSpawnLevel
   \<and> (\<exists>world. fst (LoadWorldStore (exampleStoreEnv intSpawnLevel) ''world'') = Inr world
         \<and> SpawnPosition world = AbsXyz 0 64 0 \<and> Time world = 0 \<and> Seed world = 1300000011)
   \<and> LoadWorldStore (exampleStoreEnv []) ''world''
       = (Inl (NewError ''Invalid map level data: does not contain Spawn{X,Y,Z}''), [])"
proof -
  have a: "loadLevelData (exampleStoreEnv intSpawnLevel) ''world'' = Inr intSpawnLevel"
    by (rule exampleStoreEnv_load)
  have b: "loadLevelData (exampleStoreEnv []) ''world'' = Inr []"
    by (rule exampleStoreEnv_load)
  have "\<exists>world. fst (LoadWorldStore (exampleStoreEnv intSpawnLevel) ''world'') = Inr world
         \<and> SpawnPosition world = AbsXyz 0 64 0 \<and> Time world = 0 \<and> Seed world = 1300000011"
    using LoadWorldStore_spawn_time_seed [OF a, THEN conjunct1, rule_format, of 0 64 0 "''world''"]
    by (simp add: exampleStoreEnv_def intSpawnLevel_def)
  moreover have "LoadWorldStore (exampleStoreEnv []) ''world''
       = (Inl (NewError ''Invalid map level data: does not contain Spawn{X,Y,Z}''), [])"
    using LoadWorldStore_spawn_time_seed [OF b, THEN conjunct2]
    by (simp add: exampleStoreEnv_def)
  ultimately show ?thesis
    using a by simp
qed

section \<open>Positions from tags\<close>

text \<open>
  C10.  Provided that the value at the path, when it is a list, has at least three elements:
  \<^verbatim>\<open>absXyzFromNbt\<close> returns the error \<^verbatim>\<open>BadType(path)\<close> iff the value at the path is
  not a list or one of its first three elements is not a \<^verbatim>\<open>Double\<close>; otherwise it returns
  the position built from those three \<^verbatim>\<open>Double\<close> values.
\<close>

theorem absXyzFromNbt_BadType_iff:
  assumes "\<forall>vs. Lookup env tag path = Some (NbtList vs) \<longrightarrow> 3 \<le> length vs"
  shows
    "((absXyzFromNbt env tag path = Some (Inl (BadType path))) =
        ((\<forall>vs. Lookup env tag path \<noteq> Some (NbtList vs))
         \<or> (\<exists>vs i. Lookup env tag path = Some (NbtList vs) \<and> i < 3
               \<and> (\<forall>d. vs ! i \<noteq> NbtDouble d))))
     \<and> (absXyzFromNbt env tag path \<noteq> Some (Inl (BadType path)) \<longrightarrow>
          (\<exists>vs x y z.
             Lookup env tag path = Some (NbtList vs)
             \<and> vs ! 0 = NbtDouble x \<and> vs ! 1 = NbtDouble y \<and> vs ! 2 = NbtDouble z
             \<and> absXyzFromNbt env tag path
                 = Some (Inr (AbsXyz (AbsCoordOfDouble env x) (AbsCoordOfDouble env y)
                                (AbsCoordOfDouble env z)))))"
proof (cases "asList (Lookup env tag path)")
  case None
  then have "\<forall>vs. Lookup env tag path \<noteq> Some (NbtList vs)"
    by (simp add: asList_None)
  moreover have "absXyzFromNbt env tag path = Some (Inl (BadType path))"
    by (simp add: absXyzFromNbt_def None)
  ultimately show ?thesis by simp
next
  case (Some vs)
  then have l: "Lookup env tag path = Some (NbtList vs)"
    by (simp add: asList_Some)
  with assms have len: "\<not> length vs < 3"
    by auto
  have i3: "i < 3 \<longleftrightarrow> i = 0 \<or> i = 1 \<or> i = 2" for i :: nat
    by auto
  show ?thesis
  proof (cases "\<exists>x y z. vs ! 0 = NbtDouble x \<and> vs ! 1 = NbtDouble y \<and> vs ! 2 = NbtDouble z")
    case True
    then obtain x y z where
      d: "vs ! 0 = NbtDouble x" "vs ! Suc 0 = NbtDouble y" "vs ! 2 = NbtDouble z"
      by auto
    have r: "absXyzFromNbt env tag path
        = Some (Inr (AbsXyz (AbsCoordOfDouble env x) (AbsCoordOfDouble env y)
                                (AbsCoordOfDouble env z)))"
      by (simp add: absXyzFromNbt_def Some len d)
    have "\<And>i. i < 3 \<Longrightarrow> \<exists>d'. vs ! i = NbtDouble d'"
      using d by (auto simp add: i3)
    then have nb: "\<not> (\<exists>i. i < 3 \<and> (\<forall>d'. vs ! i \<noteq> NbtDouble d'))"
      by blast
    have ex: "\<exists>x' y' z'. vs ! 0 = NbtDouble x' \<and> vs ! 1 = NbtDouble y' \<and> vs ! 2 = NbtDouble z'
        \<and> absXyzFromNbt env tag path
             = Some (Inr (AbsXyz (AbsCoordOfDouble env x') (AbsCoordOfDouble env y')
                            (AbsCoordOfDouble env z')))"
      using d r by simp
    show ?thesis
      using nb ex unfolding l by (simp add: r)
  next
    case False
    then have n: "asDouble (Some (vs ! 0)) = None \<or> asDouble (Some (vs ! 1)) = None
        \<or> asDouble (Some (vs ! 2)) = None"
      by (auto simp add: asDouble_None)
    then have r: "absXyzFromNbt env tag path = Some (Inl (BadType path))"
      by (auto simp add: absXyzFromNbt_def Some len split: option.splits)
    from n have "\<exists>i. i < 3 \<and> (\<forall>d. vs ! i \<noteq> NbtDouble d)"
      by (auto simp add: asDouble_None i3)
    then show ?thesis
      by (simp add: r l)
  qed
qed

theorem absXyzFromNbt_BadType_iff_witness:
  "Lookup (exampleStoreEnv posLevel) posLevel ''/Data/Player/Pos''
     = Some (NbtList [NbtDouble 8, NbtDouble 65, NbtDouble (- 3)])
   \<and> absXyzFromNbt (exampleStoreEnv posLevel) posLevel ''/Data/Player/Pos''
       = Some (Inr (AbsXyz 8 65 (- 3)))
   \<and> absXyzFromNbt (exampleStoreEnv badPosLevel) badPosLevel ''/Data/Player/Pos''
       = Some (Inl (BadType ''/Data/Player/Pos''))"
proof -
  let ?path = "''/Data/Player/Pos''"
  have l: "Lookup (exampleStoreEnv posLevel) posLevel ?path
             = Some (NbtList [NbtDouble 8, NbtDouble 65, NbtDouble (- 3)])"
    by (simp add: exampleStoreEnv_def posLevel_def)
  have l': "Lookup (exampleStoreEnv badPosLevel) badPosLevel ?path
             = Some (NbtList [NbtDouble 8, NbtInt 65, NbtDouble (- 3)])"
    by (simp add: exampleStoreEnv_def badPosLevel_def)
  have h: "\<forall>vs. Lookup (exampleStoreEnv posLevel) posLevel ?path = Some (NbtList vs)
             \<longrightarrow> 3 \<le> length vs"
    by (simp add: l)
  have h': "\<forall>vs. Lookup (exampleStoreEnv badPosLevel) badPosLevel ?path = Some (NbtList vs)
             \<longrightarrow> 3 \<le> length vs"
    by (simp add: l')
  have i3: "i < 3 \<longleftrightarrow> i = 0 \<or> i = 1 \<or> i = 2" for i :: nat
    by auto
  have "absXyzFromNbt (exampleStoreEnv posLevel) posLevel ?path \<noteq> Some (Inl (BadType ?path))"
    unfolding absXyzFromNbt_BadType_iff [OF h, THEN conjunct1] l
    by (auto simp add: i3)
  then have good: "absXyzFromNbt (exampleStoreEnv posLevel) posLevel ?path
       = Some (Inr (AbsXyz 8 65 (- 3)))"
    using absXyzFromNbt_BadType_iff [OF h, THEN conjunct2] unfolding l
    by (auto simp add: exampleStoreEnv_def)
  have bad: "absXyzFromNbt (exampleStoreEnv badPosLevel) badPosLevel ?path
       = Some (Inl (BadType ?path))"
    unfolding absXyzFromNbt_BadType_iff [OF h', THEN conjunct1] l'
    by (auto simp add: i3)
  from l good bad show ?thesis by simp
qed

section \<open>The composed chunk store\<close>


text \<open>Under the modelled lookup a multi-store answers with the first tier, in list order, that has
  the chunk.\<close>

lemma queryChunk_MultiStore_first:
  "fst (queryChunk readStore generate (NewMultiStore tiers) loc) =
     (case List.find (\<lambda>tier. fst (queryChunk readStore generate tier loc) \<noteq> None) tiers of
        None \<Rightarrow> None
      | Some tier \<Rightarrow> fst (queryChunk readStore generate tier loc))"
  by (induction tiers) (auto split: prod.splits option.splits)



end
